theory Spec2Isabelle
  imports Main
begin

section \<open>The declarations of \<^verbatim>\<open>src/definitions.ts\<close>\<close>

text \<open>
  The file declares two numeric enums, four option interfaces and the plugin interface.
  It holds no executable statement, so the embedding is the declarations themselves:
  each enum is a datatype with the function that gives a member its number, each
  interface is the list of its properties (name, optionality, type) and the plugin
  interface is the list of its method signatures, in the order of the file.
\<close>

subsection \<open>Enums\<close>

datatype ErrorCodeReference =
    PUSH_PROVISION_ERROR
  | PUSH_PROVISION_CANCEL
  | MISSING_DATA_ERROR
  | CREATE_WALLET_CANCEL
  | IS_TOKENIZED_ERROR
  | REMOVE_TOKEN_ERROR
  | INVALID_TOKEN
  | SELECT_TOKEN_ERROR
  | SET_DEFAULT_PAYMENTS_ERROR

fun ErrorCodeReference_value :: "ErrorCodeReference \<Rightarrow> int" where
  "ErrorCodeReference_value PUSH_PROVISION_ERROR = -1"
| "ErrorCodeReference_value PUSH_PROVISION_CANCEL = -2"
| "ErrorCodeReference_value MISSING_DATA_ERROR = -3"
| "ErrorCodeReference_value CREATE_WALLET_CANCEL = -4"
| "ErrorCodeReference_value IS_TOKENIZED_ERROR = -5"
| "ErrorCodeReference_value REMOVE_TOKEN_ERROR = -6"
| "ErrorCodeReference_value INVALID_TOKEN = -7"
| "ErrorCodeReference_value SELECT_TOKEN_ERROR = -8"
| "ErrorCodeReference_value SET_DEFAULT_PAYMENTS_ERROR = -9"

text \<open>The members in the order of their declaration.\<close>

definition ErrorCodeReference_members :: "ErrorCodeReference list" where
  "ErrorCodeReference_members =
     [PUSH_PROVISION_ERROR, PUSH_PROVISION_CANCEL, MISSING_DATA_ERROR,
      CREATE_WALLET_CANCEL, IS_TOKENIZED_ERROR, REMOVE_TOKEN_ERROR,
      INVALID_TOKEN, SELECT_TOKEN_ERROR, SET_DEFAULT_PAYMENTS_ERROR]"

datatype TokenStatusReference =
    TOKEN_STATE_UNTOKENIZED
  | TOKEN_STATE_PENDING
  | TOKEN_STATE_NEEDS_IDENTITY_VERIFICATION
  | TOKEN_STATE_SUSPENDED
  | TOKEN_STATE_ACTIVE
  | TOKEN_STATE_FELICA_PENDING_PROVISIONING
  | TOKEN_STATE_NOT_FOUND

fun TokenStatusReference_value :: "TokenStatusReference \<Rightarrow> int" where
  "TokenStatusReference_value TOKEN_STATE_UNTOKENIZED = 1"
| "TokenStatusReference_value TOKEN_STATE_PENDING = 2"
| "TokenStatusReference_value TOKEN_STATE_NEEDS_IDENTITY_VERIFICATION = 3"
| "TokenStatusReference_value TOKEN_STATE_SUSPENDED = 4"
| "TokenStatusReference_value TOKEN_STATE_ACTIVE = 5"
| "TokenStatusReference_value TOKEN_STATE_FELICA_PENDING_PROVISIONING = 6"
| "TokenStatusReference_value TOKEN_STATE_NOT_FOUND = -1"

definition TokenStatusReference_members :: "TokenStatusReference list" where
  "TokenStatusReference_members =
     [TOKEN_STATE_UNTOKENIZED, TOKEN_STATE_PENDING,
      TOKEN_STATE_NEEDS_IDENTITY_VERIFICATION, TOKEN_STATE_SUSPENDED,
      TOKEN_STATE_ACTIVE, TOKEN_STATE_FELICA_PENDING_PROVISIONING,
      TOKEN_STATE_NOT_FOUND]"

subsection \<open>Type expressions\<close>

text \<open>
  The type expressions that occur in the file: \<^verbatim>\<open>string\<close>, \<^verbatim>\<open>boolean\<close>,
  \<^verbatim>\<open>any\<close>, \<^verbatim>\<open>void\<close>, a string literal type, a union, an array, an object type
  with its properties, a function type, \<^verbatim>\<open>Promise<T>\<close>, and a reference to a type that
  is not an interface of the file (the enum \<^verbatim>\<open>TokenStatusReference\<close> and the imported
  \<^verbatim>\<open>PluginListenerHandle\<close>). A property written \<^verbatim>\<open>p?: T\<close> is \<open>Optional\<close>, a property
  written \<^verbatim>\<open>p: T\<close> is \<open>Required\<close>.
\<close>

datatype optionality = Required | Optional

datatype ts_type =
    TString
  | TBoolean
  | TAny
  | TVoid
  | TLiteral string
  | TUnion "ts_type list"
  | TArray ts_type
  | TObject "ts_property list"
  | TFunction "(string \<times> ts_type) list" ts_type
  | TPromise ts_type
  | TRef string
and ts_property =
    Property (prop_name: string) (prop_optionality: optionality) (prop_type: ts_type)

datatype method_signature =
  Method (method_name: string) (parameters: "(string \<times> ts_type) list") (returns: ts_type)

subsection \<open>Option interfaces\<close>

definition GooglePayAddress :: ts_type where
  "GooglePayAddress = TObject
     [Property ''name'' Required TString,
      Property ''address1'' Required TString,
      Property ''address2'' Optional TString,
      Property ''locality'' Required TString,
      Property ''administrativeArea'' Required TString,
      Property ''countryCode'' Required TString,
      Property ''postalCode'' Required TString,
      Property ''phoneNumber'' Required TString]"

definition GooglePayProvisionOptions :: ts_type where
  "GooglePayProvisionOptions = TObject
     [Property ''opc'' Required TString,
      Property ''tsp'' Required TString,
      Property ''clientName'' Required TString,
      Property ''lastDigits'' Required TString,
      Property ''address'' Required GooglePayAddress]"

definition GooglePayIsTokenizedOptions :: ts_type where
  "GooglePayIsTokenizedOptions = TObject
     [Property ''tsp'' Required TString,
      Property ''lastDigits'' Required TString]"

definition GooglePayTokenOptions :: ts_type where
  "GooglePayTokenOptions = TObject
     [Property ''tsp'' Required TString,
      Property ''tokenReferenceId'' Required TString]"

subsection \<open>The plugin interface\<close>

definition addListener :: method_signature where
  "addListener = Method ''addListener''
     [(''eventName'', TLiteral ''registerDataChangedListener''),
      (''listenerFunc'', TFunction [(''response'', TAny)] TVoid)]
     (TPromise (TRef ''PluginListenerHandle''))"

definition removeAllListeners :: method_signature where
  "removeAllListeners = Method ''removeAllListeners'' [] TVoid"

definition getEnvironment :: method_signature where
  "getEnvironment = Method ''getEnvironment'' []
     (TPromise (TObject
        [Property ''value'' Required
           (TUnion [TLiteral ''PROD'', TLiteral ''SANDBOX'', TLiteral ''DEV''])]))"

definition getStableHardwareId :: method_signature where
  "getStableHardwareId = Method ''getStableHardwareId'' []
     (TPromise (TObject [Property ''hardwareId'' Required TString]))"

definition getActiveWalletID :: method_signature where
  "getActiveWalletID = Method ''getActiveWalletID'' []
     (TPromise (TObject [Property ''walletId'' Required TString]))"

definition createWallet :: method_signature where
  "createWallet = Method ''createWallet'' []
     (TPromise (TObject [Property ''isCreated'' Required TBoolean]))"

definition getTokenStatus :: method_signature where
  "getTokenStatus = Method ''getTokenStatus'' [(''options'', GooglePayTokenOptions)]
     (TPromise (TObject
        [Property ''state'' Required (TRef ''TokenStatusReference''),
         Property ''code'' Required TString]))"

definition listTokens :: method_signature where
  "listTokens = Method ''listTokens'' []
     (TPromise (TObject [Property ''tokens'' Required (TArray TString)]))"

definition isTokenized :: method_signature where
  "isTokenized = Method ''isTokenized'' [(''options'', GooglePayIsTokenizedOptions)]
     (TPromise (TObject [Property ''isTokenized'' Required TBoolean]))"

definition pushProvision :: method_signature where
  "pushProvision = Method ''pushProvision'' [(''options'', GooglePayProvisionOptions)]
     (TPromise (TObject [Property ''tokenId'' Required TString]))"

definition requestSelectToken :: method_signature where
  "requestSelectToken = Method ''requestSelectToken'' [(''options'', GooglePayTokenOptions)]
     (TPromise (TObject [Property ''isSuccess'' Required TBoolean]))"

definition requestDeleteToken :: method_signature where
  "requestDeleteToken = Method ''requestDeleteToken'' [(''options'', GooglePayTokenOptions)]
     (TPromise (TObject [Property ''isSuccess'' Required TBoolean]))"

definition isGPayDefaultNFCApp :: method_signature where
  "isGPayDefaultNFCApp = Method ''isGPayDefaultNFCApp'' []
     (TPromise (TObject
        [Property ''isDefault'' Required TBoolean,
         Property ''isNFCOn'' Required TBoolean]))"

definition setGPayAsDefaultNFCApp :: method_signature where
  "setGPayAsDefaultNFCApp = Method ''setGPayAsDefaultNFCApp'' []
     (TPromise (TObject [Property ''isDefault'' Required TBoolean]))"

definition registerDataChangedListener :: method_signature where
  "registerDataChangedListener = Method ''registerDataChangedListener'' [] (TPromise TAny)"

definition GooglePayPlugin :: "method_signature list" where
  "GooglePayPlugin =
     [addListener, removeAllListeners, getEnvironment, getStableHardwareId,
      getActiveWalletID, createWallet, getTokenStatus, listTokens, isTokenized,
      pushProvision, requestSelectToken, requestDeleteToken, isGPayDefaultNFCApp,
      setGPayAsDefaultNFCApp, registerDataChangedListener]"

subsection \<open>Reading the declarations\<close>

text \<open>The properties an object type declares (none for any other type expression).\<close>

fun properties :: "ts_type \<Rightarrow> ts_property list" where
  "properties (TObject ps) = ps"
| "properties _ = []"

definition required_names :: "ts_type \<Rightarrow> string list" where
  "required_names t =
     map prop_name (filter (\<lambda>p. prop_optionality p = Required) (properties t))"

definition optional_names :: "ts_type \<Rightarrow> string list" where
  "optional_names t =
     map prop_name (filter (\<lambda>p. prop_optionality p = Optional) (properties t))"

fun is_promise :: "ts_type \<Rightarrow> bool" where
  "is_promise (TPromise _) = True"
| "is_promise _ = False"

fun is_function :: "ts_type \<Rightarrow> bool" where
  "is_function (TFunction _ _) = True"
| "is_function _ = False"

text \<open>
  A method subscribes to events when it takes a callback; it is a request/response
  operation when it takes none and returns a promise.
\<close>

definition takes_callback :: "method_signature \<Rightarrow> bool" where
  "takes_callback m = list_ex (\<lambda>p. is_function (snd p)) (parameters m)"

definition request_response :: "method_signature \<Rightarrow> bool" where
  "request_response m = (\<not> takes_callback m \<and> is_promise (returns m))"

text \<open>The type a method resolves with: \<^verbatim>\<open>T\<close> when it returns \<^verbatim>\<open>Promise<T>\<close>.\<close>

fun resolved :: "method_signature \<Rightarrow> ts_type option" where
  "resolved (Method n ps (TPromise t)) = Some t"
| "resolved _ = None"

text \<open>The declared type of the property of that name, when the type declares one.\<close>

definition field_type :: "ts_type \<Rightarrow> string \<Rightarrow> ts_type option" where
  "field_type t n = map_option prop_type (find (\<lambda>p. prop_name p = n) (properties t))"

text \<open>
  The names of the fields a method resolves with: those of \<^verbatim>\<open>T\<close> when the method returns
  \<^verbatim>\<open>Promise<T>\<close> and \<^verbatim>\<open>T\<close> is an object type, nothing otherwise.
\<close>

fun resolved_fields :: "method_signature \<Rightarrow> string list option" where
  "resolved_fields (Method n ps (TPromise (TObject fs))) = Some (map prop_name fs)"
| "resolved_fields _ = None"

text \<open>
  The strings that are assignable to a type expression: every string to \<^verbatim>\<open>string\<close> and
  \<^verbatim>\<open>any\<close>, one string to a literal type, the strings of its members to a union.
\<close>

fun string_assignable :: "ts_type \<Rightarrow> string \<Rightarrow> bool" where
  "string_assignable TString s = True"
| "string_assignable TAny s = True"
| "string_assignable (TLiteral l) s = (s = l)"
| "string_assignable (TUnion ts) s = list_ex (\<lambda>t. string_assignable t s) ts"
| "string_assignable _ s = False"

section \<open>Validation of the request of \<^verbatim>\<open>pushProvision\<close>\<close>

text \<open>Modelled from the spec: the values a caller passes over the bridge. The file under
  \<^verbatim>\<open>src/\<close> declares the types only; the spec speaks of requests whose fields are
  populated or omitted, so a request is an object given by its list of fields.
\<close>

datatype js_value =
    JString string
  | JBoolean bool
  | JObject "(string \<times> js_value) list"

fun fields_of :: "js_value \<Rightarrow> (string \<times> js_value) list" where
  "fields_of (JObject fs) = fs"
| "fields_of _ = []"

text \<open>Modelled from the spec: a field of a request is populated when the request holds a
  value under its name (\<open>field r n = Some v\<close>) and omitted when it holds none
  (\<open>field r n = None\<close>); the declarations under \<^verbatim>\<open>src/\<close> have no notion of either.
\<close>

definition field :: "js_value \<Rightarrow> string \<Rightarrow> js_value option" where
  "field r n = map_of (fields_of r) n"

text \<open>Modelled from the spec: the request-shape validation, which the native side of the
  plugin performs and which is not under \<^verbatim>\<open>src/\<close>. A value has the shape of an object
  type when none of its required properties is omitted, and each property that is there
  has the shape of its own type in turn.
\<close>

fun has_shape :: "ts_type \<Rightarrow> js_value \<Rightarrow> bool"
  and have_shape :: "ts_property list \<Rightarrow> (string \<times> js_value) list \<Rightarrow> bool"
  and has_property :: "ts_property \<Rightarrow> (string \<times> js_value) list \<Rightarrow> bool"
where
  "has_shape (TObject ps) v = have_shape ps (fields_of v)"
| "has_shape _ v = True"
| "have_shape [] fs = True"
| "have_shape (p # ps) fs = (has_property p fs \<and> have_shape ps fs)"
| "has_property (Property n opt t) fs =
     (case map_of fs n of
        None \<Rightarrow> opt = Optional
      | Some v \<Rightarrow> has_shape t v)"

text \<open>Modelled from the spec: what \<^verbatim>\<open>pushProvision\<close> does with its request before it
  dispatches it, the native method being absent from \<^verbatim>\<open>src/\<close>. A request that omits a
  required field is rejected with \<^verbatim>\<open>MISSING_DATA_ERROR\<close>; any other request is accepted
  and handed on as it is.
\<close>

definition pushProvision_validate :: "js_value \<Rightarrow> ErrorCodeReference + js_value" where
  "pushProvision_validate options =
     (if has_shape GooglePayProvisionOptions options then Inr options
      else Inl MISSING_DATA_ERROR)"

section \<open>Properties of the declarations\<close>

subsection \<open>Auxiliary facts\<close>

lemmas interface_defs =
  GooglePayAddress_def GooglePayProvisionOptions_def
  GooglePayIsTokenizedOptions_def GooglePayTokenOptions_def

lemmas method_defs =
  addListener_def removeAllListeners_def getEnvironment_def getStableHardwareId_def
  getActiveWalletID_def createWallet_def getTokenStatus_def listTokens_def
  isTokenized_def pushProvision_def requestSelectToken_def requestDeleteToken_def
  isGPayDefaultNFCApp_def setGPayAsDefaultNFCApp_def registerDataChangedListener_def

lemma ErrorCodeReference_UNIV:
  "(UNIV :: ErrorCodeReference set) = set ErrorCodeReference_members"
  unfolding ErrorCodeReference_members_def using ErrorCodeReference.exhaust by auto

lemma TokenStatusReference_UNIV:
  "(UNIV :: TokenStatusReference set) = set TokenStatusReference_members"
  unfolding TokenStatusReference_members_def using TokenStatusReference.exhaust by auto

lemma subscriptions: "filter takes_callback GooglePayPlugin = [addListener]"
  by (simp add: GooglePayPlugin_def method_defs interface_defs takes_callback_def)

lemma request_response_operations:
  "filter request_response GooglePayPlugin =
     [getEnvironment, getStableHardwareId, getActiveWalletID, createWallet,
      getTokenStatus, listTokens, isTokenized, pushProvision, requestSelectToken,
      requestDeleteToken, isGPayDefaultNFCApp, setGPayAsDefaultNFCApp,
      registerDataChangedListener]"
  by (simp add: GooglePayPlugin_def method_defs interface_defs takes_callback_def
      request_response_def)

lemma synchronous_operations:
  "filter (\<lambda>m. \<not> is_promise (returns m)) GooglePayPlugin = [removeAllListeners]"
  by (simp add: GooglePayPlugin_def method_defs)

subsection \<open>The enums\<close>

text \<open>
  C1. \<^verbatim>\<open>ErrorCodeReference\<close> has exactly nine members. Their values are, in the order of
  the declaration, -1 (\<^verbatim>\<open>PUSH_PROVISION_ERROR\<close>), -2 (\<^verbatim>\<open>PUSH_PROVISION_CANCEL\<close>),
  -3 (\<^verbatim>\<open>MISSING_DATA_ERROR\<close>), -4 (\<^verbatim>\<open>CREATE_WALLET_CANCEL\<close>), -5 (\<^verbatim>\<open>IS_TOKENIZED_ERROR\<close>),
  -6 (\<^verbatim>\<open>REMOVE_TOKEN_ERROR\<close>), -7 (\<^verbatim>\<open>INVALID_TOKEN\<close>), -8 (\<^verbatim>\<open>SELECT_TOKEN_ERROR\<close>) and
  -9 (\<^verbatim>\<open>SET_DEFAULT_PAYMENTS_ERROR\<close>): no two members share a value, and the values are
  the integers from -9 to -1.
\<close>

theorem ErrorCodeReference_nine_unique_values:
  "card (UNIV :: ErrorCodeReference set) = 9
   \<and> set ErrorCodeReference_members = UNIV
   \<and> length ErrorCodeReference_members = 9
   \<and> inj ErrorCodeReference_value
   \<and> range ErrorCodeReference_value = {-9..-1}
   \<and> ErrorCodeReference_value PUSH_PROVISION_ERROR = -1
   \<and> ErrorCodeReference_value PUSH_PROVISION_CANCEL = -2
   \<and> ErrorCodeReference_value MISSING_DATA_ERROR = -3
   \<and> ErrorCodeReference_value CREATE_WALLET_CANCEL = -4
   \<and> ErrorCodeReference_value IS_TOKENIZED_ERROR = -5
   \<and> ErrorCodeReference_value REMOVE_TOKEN_ERROR = -6
   \<and> ErrorCodeReference_value INVALID_TOKEN = -7
   \<and> ErrorCodeReference_value SELECT_TOKEN_ERROR = -8
   \<and> ErrorCodeReference_value SET_DEFAULT_PAYMENTS_ERROR = -9"
proof -
  have vals: "map ErrorCodeReference_value ErrorCodeReference_members =
      [-1, -2, -3, -4, -5, -6, -7, -8, -9]"
    by (simp add: ErrorCodeReference_members_def)
  have "distinct (map ErrorCodeReference_value ErrorCodeReference_members)"
    unfolding vals by simp
  then have dist: "distinct ErrorCodeReference_members"
    and inj: "inj ErrorCodeReference_value"
    by (simp_all add: distinct_map ErrorCodeReference_UNIV)
  have len: "length ErrorCodeReference_members = 9"
    by (simp add: ErrorCodeReference_members_def)
  have card: "card (UNIV :: ErrorCodeReference set) = 9"
    unfolding ErrorCodeReference_UNIV using dist len by (simp add: distinct_card)
  have "range ErrorCodeReference_value =
      set (map ErrorCodeReference_value ErrorCodeReference_members)"
    by (simp add: ErrorCodeReference_UNIV)
  also have "\<dots> = {-9..-1}"
    unfolding vals by auto
  finally have range: "range ErrorCodeReference_value = {-9..-1}" .
  show ?thesis
    using card len inj range ErrorCodeReference_UNIV by simp
qed

text \<open>
  C2. \<^verbatim>\<open>TokenStatusReference\<close> has seven members, no two of the same value, and the set of
  their values is \<open>{-1, 1, 2, 3, 4, 5, 6}\<close>: \<^verbatim>\<open>TOKEN_STATE_UNTOKENIZED\<close> is 1,
  \<^verbatim>\<open>TOKEN_STATE_PENDING\<close> 2, \<^verbatim>\<open>TOKEN_STATE_NEEDS_IDENTITY_VERIFICATION\<close> 3,
  \<^verbatim>\<open>TOKEN_STATE_SUSPENDED\<close> 4, \<^verbatim>\<open>TOKEN_STATE_ACTIVE\<close> 5,
  \<^verbatim>\<open>TOKEN_STATE_FELICA_PENDING_PROVISIONING\<close> 6 and \<^verbatim>\<open>TOKEN_STATE_NOT_FOUND\<close> -1.
\<close>

theorem TokenStatusReference_value_set:
  "range TokenStatusReference_value = {-1, 1, 2, 3, 4, 5, 6}
   \<and> inj TokenStatusReference_value
   \<and> card (UNIV :: TokenStatusReference set) = 7
   \<and> set TokenStatusReference_members = UNIV
   \<and> length TokenStatusReference_members = 7
   \<and> TokenStatusReference_value TOKEN_STATE_UNTOKENIZED = 1
   \<and> TokenStatusReference_value TOKEN_STATE_PENDING = 2
   \<and> TokenStatusReference_value TOKEN_STATE_NEEDS_IDENTITY_VERIFICATION = 3
   \<and> TokenStatusReference_value TOKEN_STATE_SUSPENDED = 4
   \<and> TokenStatusReference_value TOKEN_STATE_ACTIVE = 5
   \<and> TokenStatusReference_value TOKEN_STATE_FELICA_PENDING_PROVISIONING = 6
   \<and> TokenStatusReference_value TOKEN_STATE_NOT_FOUND = -1"
proof -
  have vals: "map TokenStatusReference_value TokenStatusReference_members =
      [1, 2, 3, 4, 5, 6, -1]"
    by (simp add: TokenStatusReference_members_def)
  have "distinct (map TokenStatusReference_value TokenStatusReference_members)"
    unfolding vals by simp
  then have dist: "distinct TokenStatusReference_members"
    and inj: "inj TokenStatusReference_value"
    by (simp_all add: distinct_map TokenStatusReference_UNIV)
  have len: "length TokenStatusReference_members = 7"
    by (simp add: TokenStatusReference_members_def)
  have card: "card (UNIV :: TokenStatusReference set) = 7"
    unfolding TokenStatusReference_UNIV using dist len by (simp add: distinct_card)
  have "range TokenStatusReference_value =
      set (map TokenStatusReference_value TokenStatusReference_members)"
    by (simp add: TokenStatusReference_UNIV)
  also have "\<dots> = {-1, 1, 2, 3, 4, 5, 6}"
    unfolding vals by auto
  finally have range: "range TokenStatusReference_value = {-1, 1, 2, 3, 4, 5, 6}" .
  show ?thesis
    using card len inj range TokenStatusReference_UNIV by simp
qed

subsection \<open>The option interfaces\<close>

text \<open>
  C4. \<^verbatim>\<open>GooglePayProvisionOptions\<close> declares exactly five properties: \<^verbatim>\<open>opc\<close>, \<^verbatim>\<open>tsp\<close>,
  \<^verbatim>\<open>clientName\<close> and \<^verbatim>\<open>lastDigits\<close>, which are strings, and \<^verbatim>\<open>address\<close>, which is a
  \<^verbatim>\<open>GooglePayAddress\<close>. All five are required and none is optional.
\<close>

theorem GooglePayProvisionOptions_five_required:
  "map prop_name (properties GooglePayProvisionOptions) =
     [''opc'', ''tsp'', ''clientName'', ''lastDigits'', ''address'']
   \<and> required_names GooglePayProvisionOptions =
     [''opc'', ''tsp'', ''clientName'', ''lastDigits'', ''address'']
   \<and> optional_names GooglePayProvisionOptions = []
   \<and> length (properties GooglePayProvisionOptions) = 5
   \<and> field_type GooglePayProvisionOptions ''opc'' = Some TString
   \<and> field_type GooglePayProvisionOptions ''tsp'' = Some TString
   \<and> field_type GooglePayProvisionOptions ''clientName'' = Some TString
   \<and> field_type GooglePayProvisionOptions ''lastDigits'' = Some TString
   \<and> field_type GooglePayProvisionOptions ''address'' = Some GooglePayAddress"
  by (simp add: GooglePayProvisionOptions_def required_names_def optional_names_def
      field_type_def)

text \<open>
  C7. \<^verbatim>\<open>GooglePayAddress\<close> declares eight properties, all of them strings. Seven are
  required: \<^verbatim>\<open>name\<close>, \<^verbatim>\<open>address1\<close>, \<^verbatim>\<open>locality\<close>, \<^verbatim>\<open>administrativeArea\<close>,
  \<^verbatim>\<open>countryCode\<close>, \<^verbatim>\<open>postalCode\<close> and \<^verbatim>\<open>phoneNumber\<close>. One is optional: \<^verbatim>\<open>address2\<close>.
\<close>

theorem GooglePayAddress_required_and_optional:
  "required_names GooglePayAddress =
     [''name'', ''address1'', ''locality'', ''administrativeArea'', ''countryCode'',
      ''postalCode'', ''phoneNumber'']
   \<and> optional_names GooglePayAddress = [''address2'']
   \<and> map prop_name (properties GooglePayAddress) =
     [''name'', ''address1'', ''address2'', ''locality'', ''administrativeArea'',
      ''countryCode'', ''postalCode'', ''phoneNumber'']
   \<and> map prop_type (properties GooglePayAddress) = replicate 8 TString"
  by (simp add: GooglePayAddress_def required_names_def optional_names_def
      numeral_eq_Suc)

text \<open>
  C8. \<^verbatim>\<open>GooglePayIsTokenizedOptions\<close> declares exactly \<^verbatim>\<open>tsp\<close> and \<^verbatim>\<open>lastDigits\<close>, and
  \<^verbatim>\<open>GooglePayTokenOptions\<close> exactly \<^verbatim>\<open>tsp\<close> and \<^verbatim>\<open>tokenReferenceId\<close>; every one of
  these properties is required. \<^verbatim>\<open>GooglePayTokenOptions\<close> is the type of the one parameter
  of \<^verbatim>\<open>getTokenStatus\<close>, \<^verbatim>\<open>requestSelectToken\<close> and \<^verbatim>\<open>requestDeleteToken\<close>, and of no
  other method; \<^verbatim>\<open>GooglePayIsTokenizedOptions\<close> is that of \<^verbatim>\<open>isTokenized\<close>.
\<close>

theorem token_query_keys:
  "map prop_name (properties GooglePayIsTokenizedOptions) = [''tsp'', ''lastDigits'']
   \<and> required_names GooglePayIsTokenizedOptions = [''tsp'', ''lastDigits'']
   \<and> optional_names GooglePayIsTokenizedOptions = []
   \<and> map prop_name (properties GooglePayTokenOptions) = [''tsp'', ''tokenReferenceId'']
   \<and> required_names GooglePayTokenOptions = [''tsp'', ''tokenReferenceId'']
   \<and> optional_names GooglePayTokenOptions = []
   \<and> filter (\<lambda>m. map snd (parameters m) = [GooglePayTokenOptions]) GooglePayPlugin =
       [getTokenStatus, requestSelectToken, requestDeleteToken]
   \<and> filter (\<lambda>m. GooglePayTokenOptions \<in> snd ` set (parameters m)) GooglePayPlugin =
       [getTokenStatus, requestSelectToken, requestDeleteToken]
   \<and> filter (\<lambda>m. map snd (parameters m) = [GooglePayIsTokenizedOptions]) GooglePayPlugin =
       [isTokenized]"
  by (simp add: GooglePayPlugin_def method_defs interface_defs required_names_def
      optional_names_def)

subsection \<open>The plugin interface\<close>

text \<open>
  C3, as the declarations have it. The interface declares fifteen methods. One takes a
  callback, \<^verbatim>\<open>addListener\<close>, whose event name is \<^verbatim>\<open>'registerDataChangedListener'\<close>; one
  neither takes a callback nor returns a promise, \<^verbatim>\<open>removeAllListeners\<close>; the other
  thirteen are the request/response operations, in the order of the claim. The first
  twelve of them resolve with an object of exactly the field names \<^verbatim>\<open>{ value }\<close>,
  \<^verbatim>\<open>{ hardwareId }\<close>, \<^verbatim>\<open>{ walletId }\<close>, \<^verbatim>\<open>{ isCreated }\<close>, \<^verbatim>\<open>{ state, code }\<close>,
  \<^verbatim>\<open>{ tokens }\<close>, \<^verbatim>\<open>{ isTokenized }\<close>, \<^verbatim>\<open>{ tokenId }\<close>, \<^verbatim>\<open>{ isSuccess }\<close> (twice),
  \<^verbatim>\<open>{ isDefault, isNFCOn }\<close> and \<^verbatim>\<open>{ isDefault }\<close>. The thirteenth,
  \<^verbatim>\<open>registerDataChangedListener\<close>, resolves with \<^verbatim>\<open>any\<close>, which declares no field.
\<close>

theorem GooglePayPlugin_method_surface:
  "length GooglePayPlugin = 15
   \<and> filter takes_callback GooglePayPlugin = [addListener]
   \<and> map_of (parameters addListener) ''eventName'' =
       Some (TLiteral ''registerDataChangedListener'')
   \<and> filter (\<lambda>m. \<not> takes_callback m \<and> \<not> is_promise (returns m)) GooglePayPlugin =
       [removeAllListeners]
   \<and> method_name removeAllListeners = ''removeAllListeners''
   \<and> map method_name (filter request_response GooglePayPlugin) =
       [''getEnvironment'', ''getStableHardwareId'', ''getActiveWalletID'',
        ''createWallet'', ''getTokenStatus'', ''listTokens'', ''isTokenized'',
        ''pushProvision'', ''requestSelectToken'', ''requestDeleteToken'',
        ''isGPayDefaultNFCApp'', ''setGPayAsDefaultNFCApp'',
        ''registerDataChangedListener'']
   \<and> map resolved_fields (filter request_response GooglePayPlugin) =
       [Some [''value''], Some [''hardwareId''], Some [''walletId''],
        Some [''isCreated''], Some [''state'', ''code''], Some [''tokens''],
        Some [''isTokenized''], Some [''tokenId''], Some [''isSuccess''],
        Some [''isSuccess''], Some [''isDefault'', ''isNFCOn''], Some [''isDefault''],
        None]
   \<and> resolved registerDataChangedListener = Some TAny"
proof -
  have sync: "filter (\<lambda>m. \<not> takes_callback m \<and> \<not> is_promise (returns m)) GooglePayPlugin =
      [removeAllListeners]"
    by (simp add: GooglePayPlugin_def method_defs interface_defs takes_callback_def)
  show ?thesis
    unfolding request_response_operations subscriptions sync
    by (simp add: method_defs) (simp add: GooglePayPlugin_def)
qed

text \<open>
  C3, as the claim states it, fails at \<^verbatim>\<open>registerDataChangedListener\<close>: it is one of the
  thirteen request/response operations, and what it resolves with has none of the listed
  sets of field names.
\<close>

theorem registerDataChangedListener_resolves_unlisted:
  "registerDataChangedListener \<in> set (filter request_response GooglePayPlugin)
   \<and> resolved_fields registerDataChangedListener \<notin> set (map Some
       [[''value''], [''hardwareId''], [''walletId''], [''isCreated''],
        [''state'', ''code''], [''tokens''], [''isTokenized''], [''tokenId''],
        [''isSuccess''], [''isDefault'', ''isNFCOn''], [''isDefault'']])"
  unfolding request_response_operations by (simp add: registerDataChangedListener_def)

text \<open>
  C6, as the declarations have it. Exactly one method of the interface does not return a
  promise: \<^verbatim>\<open>removeAllListeners\<close>, which returns \<^verbatim>\<open>void\<close>. The other fourteen do: the
  thirteen request/response operations, and the event subscription \<^verbatim>\<open>addListener\<close> too.
\<close>

theorem only_removeAllListeners_is_synchronous:
  "filter (\<lambda>m. \<not> is_promise (returns m)) GooglePayPlugin = [removeAllListeners]
   \<and> returns removeAllListeners = TVoid
   \<and> filter (\<lambda>m. is_promise (returns m)) GooglePayPlugin =
       [addListener, getEnvironment, getStableHardwareId, getActiveWalletID,
        createWallet, getTokenStatus, listTokens, isTokenized, pushProvision,
        requestSelectToken, requestDeleteToken, isGPayDefaultNFCApp,
        setGPayAsDefaultNFCApp, registerDataChangedListener]"
  unfolding synchronous_operations
  by (simp add: removeAllListeners_def) (simp add: GooglePayPlugin_def method_defs)

text \<open>
  C6, as the claim states it, fails at \<^verbatim>\<open>removeAllListeners\<close>: it is a method of the
  interface, it is not the event subscription, and it does not return a promise.
\<close>

theorem removeAllListeners_not_deferred:
  "removeAllListeners \<in> set GooglePayPlugin
   \<and> removeAllListeners \<noteq> addListener
   \<and> \<not> takes_callback removeAllListeners
   \<and> \<not> is_promise (returns removeAllListeners)"
  by (simp add: GooglePayPlugin_def removeAllListeners_def addListener_def
      takes_callback_def)

text \<open>
  C9. \<^verbatim>\<open>getEnvironment\<close> has no parameter. It resolves with an object type whose one
  property, \<^verbatim>\<open>value\<close>, is required, and the strings assignable to the type of
  \<^verbatim>\<open>value\<close> are \<^verbatim>\<open>'PROD'\<close>, \<^verbatim>\<open>'SANDBOX'\<close> and \<^verbatim>\<open>'DEV'\<close> and no other.
\<close>

theorem getEnvironment_three_tags:
  "parameters getEnvironment = []
   \<and> (\<exists>t v. resolved getEnvironment = Some t
          \<and> required_names t = [''value'']
          \<and> optional_names t = []
          \<and> field_type t ''value'' = Some v
          \<and> v = TUnion [TLiteral ''PROD'', TLiteral ''SANDBOX'', TLiteral ''DEV'']
          \<and> (\<forall>s. string_assignable v s \<longleftrightarrow> s \<in> {''PROD'', ''SANDBOX'', ''DEV''}))"
  by (auto simp: getEnvironment_def required_names_def optional_names_def field_type_def)

text \<open>
  C10. \<^verbatim>\<open>addListener\<close> is declared once. Its first parameter, \<^verbatim>\<open>eventName\<close>, has a type
  to which one string only is assignable, \<^verbatim>\<open>'registerDataChangedListener'\<close>; its second
  parameter is the callback; and it resolves with a \<^verbatim>\<open>PluginListenerHandle\<close>. No other
  method of the interface takes a callback.
\<close>

theorem addListener_single_event_name:
  "filter (\<lambda>m. method_name m = ''addListener'') GooglePayPlugin = [addListener]
   \<and> filter takes_callback GooglePayPlugin = [addListener]
   \<and> map fst (parameters addListener) = [''eventName'', ''listenerFunc'']
   \<and> (\<exists>t. map_of (parameters addListener) ''eventName'' = Some t
          \<and> (\<forall>s. string_assignable t s \<longleftrightarrow> s = ''registerDataChangedListener''))
   \<and> map_of (parameters addListener) ''listenerFunc'' =
       Some (TFunction [(''response'', TAny)] TVoid)
   \<and> resolved addListener = Some (TRef ''PluginListenerHandle'')"
proof -
  have once: "filter (\<lambda>m. method_name m = ''addListener'') GooglePayPlugin = [addListener]"
    by (simp add: GooglePayPlugin_def method_defs)
  show ?thesis
    unfolding once subscriptions by (simp add: addListener_def)
qed

subsection \<open>Validation of a provisioning request\<close>

text \<open>
  C5. A request in which \<^verbatim>\<open>opc\<close>, \<^verbatim>\<open>tsp\<close>, \<^verbatim>\<open>clientName\<close>, \<^verbatim>\<open>lastDigits\<close> and
  \<^verbatim>\<open>address\<close> are populated, and in whose address \<^verbatim>\<open>name\<close>, \<^verbatim>\<open>address1\<close>,
  \<^verbatim>\<open>locality\<close>, \<^verbatim>\<open>administrativeArea\<close>, \<^verbatim>\<open>countryCode\<close>, \<^verbatim>\<open>postalCode\<close> and
  \<^verbatim>\<open>phoneNumber\<close> are populated, is accepted by the validation and handed on unchanged.
  A request that omits one of the five, or whose address omits one of the seven, is
  rejected with \<^verbatim>\<open>MISSING_DATA_ERROR\<close>, whose value is -3.
\<close>

theorem pushProvision_validate_required_fields:
  "(field r ''opc'' \<noteq> None \<and> field r ''tsp'' \<noteq> None \<and> field r ''clientName'' \<noteq> None
      \<and> field r ''lastDigits'' \<noteq> None \<and> field r ''address'' = Some a
      \<and> field a ''name'' \<noteq> None \<and> field a ''address1'' \<noteq> None
      \<and> field a ''locality'' \<noteq> None \<and> field a ''administrativeArea'' \<noteq> None
      \<and> field a ''countryCode'' \<noteq> None \<and> field a ''postalCode'' \<noteq> None
      \<and> field a ''phoneNumber'' \<noteq> None
    \<longrightarrow> pushProvision_validate r = Inr r)
   \<and> (field r ''opc'' = None \<or> field r ''tsp'' = None \<or> field r ''clientName'' = None
      \<or> field r ''lastDigits'' = None \<or> field r ''address'' = None
      \<or> field r ''address'' = Some a
         \<and> (field a ''name'' = None \<or> field a ''address1'' = None
            \<or> field a ''locality'' = None \<or> field a ''administrativeArea'' = None
            \<or> field a ''countryCode'' = None \<or> field a ''postalCode'' = None
            \<or> field a ''phoneNumber'' = None)
    \<longrightarrow> pushProvision_validate r = Inl MISSING_DATA_ERROR)
   \<and> ErrorCodeReference_value MISSING_DATA_ERROR = -3"
proof -
  have shape: "has_shape GooglePayProvisionOptions r \<longleftrightarrow>
      field r ''opc'' \<noteq> None \<and> field r ''tsp'' \<noteq> None \<and> field r ''clientName'' \<noteq> None
      \<and> field r ''lastDigits'' \<noteq> None
      \<and> (\<exists>b. field r ''address'' = Some b
            \<and> field b ''name'' \<noteq> None \<and> field b ''address1'' \<noteq> None
            \<and> field b ''locality'' \<noteq> None \<and> field b ''administrativeArea'' \<noteq> None
            \<and> field b ''countryCode'' \<noteq> None \<and> field b ''postalCode'' \<noteq> None
            \<and> field b ''phoneNumber'' \<noteq> None)"
    by (auto simp: GooglePayProvisionOptions_def GooglePayAddress_def field_def
        split: option.splits)
  show ?thesis
    unfolding pushProvision_validate_def shape by auto
qed

text \<open>
  The theorem at two requests: one with every required field (and no \<^verbatim>\<open>address2\<close>), which
  is accepted, and the same request with the address's \<^verbatim>\<open>postalCode\<close> left out, which is
  rejected.
\<close>

theorem pushProvision_validate_required_fields_witness:
  "pushProvision_validate
     (JObject [(''opc'', JString ''b3BhcXVl''), (''tsp'', JString ''VISA''),
        (''clientName'', JString ''Bank''), (''lastDigits'', JString ''1234''),
        (''address'', JObject [(''name'', JString ''A. Person''),
           (''address1'', JString ''1 High Street''), (''locality'', JString ''Leeds''),
           (''administrativeArea'', JString ''WY''), (''countryCode'', JString ''GB''),
           (''postalCode'', JString ''LS1 1AA''), (''phoneNumber'', JString ''0113'')])])
   = Inr
     (JObject [(''opc'', JString ''b3BhcXVl''), (''tsp'', JString ''VISA''),
        (''clientName'', JString ''Bank''), (''lastDigits'', JString ''1234''),
        (''address'', JObject [(''name'', JString ''A. Person''),
           (''address1'', JString ''1 High Street''), (''locality'', JString ''Leeds''),
           (''administrativeArea'', JString ''WY''), (''countryCode'', JString ''GB''),
           (''postalCode'', JString ''LS1 1AA''), (''phoneNumber'', JString ''0113'')])])
   \<and> pushProvision_validate
     (JObject [(''opc'', JString ''b3BhcXVl''), (''tsp'', JString ''VISA''),
        (''clientName'', JString ''Bank''), (''lastDigits'', JString ''1234''),
        (''address'', JObject [(''name'', JString ''A. Person''),
           (''address1'', JString ''1 High Street''), (''locality'', JString ''Leeds''),
           (''administrativeArea'', JString ''WY''), (''countryCode'', JString ''GB''),
           (''phoneNumber'', JString ''0113'')])])
   = Inl MISSING_DATA_ERROR"
  using
    pushProvision_validate_required_fields
      [of "JObject [(''opc'', JString ''b3BhcXVl''), (''tsp'', JString ''VISA''),
        (''clientName'', JString ''Bank''), (''lastDigits'', JString ''1234''),
        (''address'', JObject [(''name'', JString ''A. Person''),
           (''address1'', JString ''1 High Street''), (''locality'', JString ''Leeds''),
           (''administrativeArea'', JString ''WY''), (''countryCode'', JString ''GB''),
           (''postalCode'', JString ''LS1 1AA''), (''phoneNumber'', JString ''0113'')])]"
        "JObject [(''name'', JString ''A. Person''),
           (''address1'', JString ''1 High Street''), (''locality'', JString ''Leeds''),
           (''administrativeArea'', JString ''WY''), (''countryCode'', JString ''GB''),
           (''postalCode'', JString ''LS1 1AA''), (''phoneNumber'', JString ''0113'')]"]
    pushProvision_validate_required_fields
      [of "JObject [(''opc'', JString ''b3BhcXVl''), (''tsp'', JString ''VISA''),
        (''clientName'', JString ''Bank''), (''lastDigits'', JString ''1234''),
        (''address'', JObject [(''name'', JString ''A. Person''),
           (''address1'', JString ''1 High Street''), (''locality'', JString ''Leeds''),
           (''administrativeArea'', JString ''WY''), (''countryCode'', JString ''GB''),
           (''phoneNumber'', JString ''0113'')])]"
        "JObject [(''name'', JString ''A. Person''),
           (''address1'', JString ''1 High Street''), (''locality'', JString ''Leeds''),
           (''administrativeArea'', JString ''WY''), (''countryCode'', JString ''GB''),
           (''phoneNumber'', JString ''0113'')]"]
  by (simp add: field_def)

end
